theory Spec2Isabelle
  imports Complex_Main "HOL-Library.Multiset" "HOL-Library.Sublist"
begin

section \<open>JavaScript values used by the two components\<close>

text \<open>
  A JavaScript \<open>number\<close> that carries a price or the difference of two prices is
  modelled as a rational: subtraction and comparison are exact.  \<open>NaN\<close>, the
  infinities and rounding lie outside the model; a price that is \<open>null\<close>,
  \<open>undefined\<close>, or \<open>NaN\<close> is \<open>None\<close> (all three are falsy, so
  \<open>price || 0\<close> reads each of them as \<open>0\<close>).  Page indices, page sizes and
  epoch milliseconds are integers.

  Strings are lists of 8-bit characters and the model covers ASCII text:
  \<open>toLowerCase\<close> maps \<open>A\<close>..\<open>Z\<close> to \<open>a\<close>..\<open>z\<close>, and \<open>trim\<close> strips the
  ASCII white space characters (TAB, LF, VT, FF, CR, SPACE) from both ends.
\<close>

type_synonym number = rat

definition lowerChar :: "char \<Rightarrow> char" where
  "lowerChar c =
     (let n = (of_char c :: nat)
      in if 65 \<le> n \<and> n \<le> 90 then char_of (n + 32) else c)"

definition toLowerCase :: "string \<Rightarrow> string" where
  "toLowerCase s = map lowerChar s"

definition isWhiteSpace :: "char \<Rightarrow> bool" where
  "isWhiteSpace c =
     (let n = (of_char c :: nat)
      in n = 9 \<or> n = 10 \<or> n = 11 \<or> n = 12 \<or> n = 13 \<or> n = 32)"

definition trim :: "string \<Rightarrow> string" where
  "trim s = rev (dropWhile isWhiteSpace (rev (dropWhile isWhiteSpace s)))"

text \<open>
  \<open>s.includes(q)\<close>: does \<open>q\<close> occur in \<open>s\<close> as a contiguous run?  (The name
  \<open>includes\<close> is reserved in Isabelle.)
\<close>

fun str_includes :: "string \<Rightarrow> string \<Rightarrow> bool" where
  "str_includes [] q = (q = [])"
| "str_includes (c # cs) q = (prefix q (c # cs) \<or> str_includes cs q)"

text \<open>
  \<open>Array.prototype.sort(compareFn)\<close>.  ECMAScript requires the sort to be stable,
  and for a consistent comparator the result is then determined: the elements in
  comparator order, ties in their input order.  Stable insertion computes it; an
  element \<open>x\<close> that stood before \<open>y\<close> in the input stays before it unless
  \<open>compareFn(x, y) > 0\<close>.
\<close>

fun insert_by :: "('a \<Rightarrow> 'a \<Rightarrow> number) \<Rightarrow> 'a \<Rightarrow> 'a list \<Rightarrow> 'a list" where
  "insert_by cmp x [] = [x]"
| "insert_by cmp x (y # ys) =
     (if cmp x y \<le> 0 then x # y # ys else y # insert_by cmp x ys)"

fun array_sort :: "('a \<Rightarrow> 'a \<Rightarrow> number) \<Rightarrow> 'a list \<Rightarrow> 'a list" where
  "array_sort cmp [] = []"
| "array_sort cmp (x # xs) = insert_by cmp x (array_sort cmp xs)"


section \<open>Local Filter/Sort View (ModifyProductsList.tsx)\<close>

text \<open>
  The fields of \<open>Product\<close> that the view reads.  The component reaches them
  through optional chaining (\<open>product.title?.\<close>, \<open>product.profiles?.username?.\<close>),
  so each may be absent.  \<open>created_at\<close> holds the value of
  \<open>new Date(created_at).getTime()\<close>.
\<close>

record profile =
  username :: "string option"
  full_name :: "string option"

record product =
  product_id :: string
  title :: "string option"
  category :: "string option"
  price :: "number option"
  created_at :: int
  product_status :: "string option"
  profiles :: "profile option"

text \<open>\<open>field?.toLowerCase().includes(searchQuery.toLowerCase())\<close>, falsy when the field is absent.\<close>

definition fieldIncludes :: "string option \<Rightarrow> string \<Rightarrow> bool" where
  "fieldIncludes field searchQuery =
     (case field of
        None \<Rightarrow> False
      | Some s \<Rightarrow> str_includes (toLowerCase s) (toLowerCase searchQuery))"

definition matchesSearch :: "string \<Rightarrow> product \<Rightarrow> bool" where
  "matchesSearch searchQuery p =
     (trim (toLowerCase searchQuery) = [] \<or>
      fieldIncludes (title p) searchQuery \<or>
      fieldIncludes (case profiles p of None \<Rightarrow> None | Some pr \<Rightarrow> username pr) searchQuery \<or>
      fieldIncludes (case profiles p of None \<Rightarrow> None | Some pr \<Rightarrow> full_name pr) searchQuery)"

definition matchesCategory :: "string \<Rightarrow> product \<Rightarrow> bool" where
  "matchesCategory selectedCategory p =
     (selectedCategory = ''all'' \<or> category p = Some selectedCategory)"

definition productFilter :: "string \<Rightarrow> string \<Rightarrow> product \<Rightarrow> bool" where
  "productFilter searchQuery selectedCategory p =
     (matchesSearch searchQuery p \<and> matchesCategory selectedCategory p)"

text \<open>\<open>a.price || 0\<close>\<close>

definition priceOrZero :: "product \<Rightarrow> number" where
  "priceOrZero p = (case price p of None \<Rightarrow> 0 | Some v \<Rightarrow> v)"

definition isDraft :: "product \<Rightarrow> bool" where
  "isDraft p = (product_status p = Some ''draft'')"

definition compareProducts :: "string \<Rightarrow> product \<Rightarrow> product \<Rightarrow> number" where
  "compareProducts sortOrder a b =
     (if sortOrder = ''price_asc'' then priceOrZero a - priceOrZero b
      else if sortOrder = ''price_desc'' then priceOrZero b - priceOrZero a
      else if sortOrder = ''newest'' then of_int (created_at b - created_at a)
      else if sortOrder = ''oldest'' then of_int (created_at a - created_at b)
      else if isDraft a \<and> \<not> isDraft b then - 1
      else if \<not> isDraft a \<and> isDraft b then 1
      else 0)"

definition filteredAndSortedProducts ::
    "product list \<Rightarrow> string \<Rightarrow> string \<Rightarrow> string \<Rightarrow> product list" where
  "filteredAndSortedProducts products searchQuery selectedCategory sortOrder =
     array_sort (compareProducts sortOrder)
       (filter (productFilter searchQuery selectedCategory) products)"

text \<open>
  The same derivation on an explicit array store, where an address is an index into
  the store.  \<open>products.filter(f)\<close> allocates a fresh array and leaves its receiver
  alone; \<open>.sort(c)\<close> sorts its receiver in place and returns the receiver's address.
  An address outside the store has no array behind it (\<open>None\<close>).
\<close>

type_synonym 'a store = "'a list list"

definition store_filter :: "('a \<Rightarrow> bool) \<Rightarrow> nat \<Rightarrow> 'a store \<Rightarrow> ('a store \<times> nat) option" where
  "store_filter f a h =
     (if a < length h then Some (h @ [filter f (h ! a)], length h) else None)"

definition store_sort ::
    "('a \<Rightarrow> 'a \<Rightarrow> number) \<Rightarrow> nat \<Rightarrow> 'a store \<Rightarrow> ('a store \<times> nat) option" where
  "store_sort cmp a h =
     (if a < length h then Some (h[a := array_sort cmp (h ! a)], a) else None)"

definition filteredAndSortedProducts_store ::
    "nat \<Rightarrow> string \<Rightarrow> string \<Rightarrow> string \<Rightarrow> product store \<Rightarrow> (product store \<times> nat) option" where
  "filteredAndSortedProducts_store products searchQuery selectedCategory sortOrder h =
     (case store_filter (productFilter searchQuery selectedCategory) products h of
        None \<Rightarrow> None
      | Some (h1, filtered) \<Rightarrow> store_sort (compareProducts sortOrder) filtered h1)"


section \<open>Paginated Fetcher (useProducts.ts)\<close>

text \<open>
  \<open>UseProductsProps\<close> as the caller passes it, and the parameters after the
  destructuring defaults of \<open>useProducts\<close> have been applied.
\<close>

record useProductsProps =
  searchQuery_prop :: string
  selectedCategory_prop :: string
  selectedRegion_prop :: "string option"
  selectedCountry_prop :: "string option"
  sortOrder_prop :: string
  showOnlyPublished_prop :: "bool option"
  userOnly_prop :: "bool option"
  limit_prop :: "int option"

record params =
  searchQuery :: string
  selectedCategory :: string
  selectedRegion :: string
  selectedCountry :: string
  sortOrder :: string
  showOnlyPublished :: bool
  userOnly :: bool
  limit :: int

definition orDefault :: "'a option \<Rightarrow> 'a \<Rightarrow> 'a" where
  "orDefault v d = (case v of None \<Rightarrow> d | Some x \<Rightarrow> x)"

definition useProducts_params :: "useProductsProps \<Rightarrow> params" where
  "useProducts_params props =
     \<lparr> searchQuery = searchQuery_prop props,
       selectedCategory = selectedCategory_prop props,
       selectedRegion = orDefault (selectedRegion_prop props) ''all'',
       selectedCountry = orDefault (selectedCountry_prop props) ''all'',
       sortOrder = sortOrder_prop props,
       showOnlyPublished = orDefault (showOnlyPublished_prop props) False,
       userOnly = orDefault (userOnly_prop props) False,
       limit = orDefault (limit_prop props) 10 \<rparr>"

text \<open>
  The cache key handed to the query library.  The library compares keys by their
  serialised contents, that is, part by part.
\<close>

datatype key_part = KeyStr string | KeyBool bool

definition queryKey :: "params \<Rightarrow> key_part list" where
  "queryKey p =
     [KeyStr ''products'', KeyStr (searchQuery p), KeyStr (selectedCategory p),
      KeyStr (selectedRegion p), KeyStr (selectedCountry p), KeyStr (sortOrder p),
      KeyBool (showOnlyPublished p), KeyBool (userOnly p)]"

text \<open>
  The request that \<open>fetchProducts\<close> builds for the remote store.  \<open>NumberOf s\<close>
  stands for the number \<open>Number(s)\<close>; its conversion is left to the store.
\<close>

datatype filter_value = StrVal string | NumberOf string

datatype query_filter = Ilike string string | Eq string filter_value

record query =
  q_from :: string
  q_select :: string
  q_range :: "int \<times> int"
  q_filters :: "query_filter list"
  q_order :: "(string \<times> bool) option"

record auth_user =
  uid :: string

datatype remote_error = RemoteQueryError string

text \<open>
  The builder calls of the source: \<open>query.ilike(..)\<close> and \<open>query.eq(..)\<close> append a
  filter, \<open>query.order(col, {ascending})\<close> sets the ordering.  A statement
  \<open>if (c) { query = query.eq(..) }\<close> is \<open>filterWhen c (Eq ..)\<close>.
\<close>

definition addFilter :: "query_filter \<Rightarrow> query \<Rightarrow> query" where
  "addFilter f q = q\<lparr>q_filters := q_filters q @ [f]\<rparr>"

definition filterWhen :: "bool \<Rightarrow> query_filter \<Rightarrow> query \<Rightarrow> query" where
  "filterWhen c f q = (if c then addFilter f q else q)"

definition orderBy :: "string \<Rightarrow> bool \<Rightarrow> query \<Rightarrow> query" where
  "orderBy col ascending q = q\<lparr>q_order := Some (col, ascending)\<rparr>"

fun filterColumn :: "query_filter \<Rightarrow> string" where
  "filterColumn (Ilike col pat) = col"
| "filterColumn (Eq col v) = col"

text \<open>
  \<open>if (userOnly) { const user = getUser(); if (user) query = query.eq('user_id', user.id) }\<close>,
  where \<open>user\<close> is what \<open>supabase.auth.getUser()\<close> answers; it is read only when
  \<open>userOnly\<close> is set.
\<close>

definition userOnlyFilter :: "bool \<Rightarrow> auth_user option \<Rightarrow> query \<Rightarrow> query" where
  "userOnlyFilter only user q =
     (if only
      then (case user of
              Some u \<Rightarrow> addFilter (Eq ''user_id'' (StrVal (uid u))) q
            | None \<Rightarrow> q)
      else q)"

definition sortBy :: "string \<Rightarrow> query \<Rightarrow> query" where
  "sortBy so q =
     (if so = ''asc'' then orderBy ''price'' True q
      else if so = ''desc'' then orderBy ''price'' False q
      else orderBy ''created_at'' False q)"

text \<open>The query as built by the body of \<open>fetchProducts\<close>, in the order of the source.\<close>

definition buildQuery :: "params \<Rightarrow> auth_user option \<Rightarrow> int \<Rightarrow> query" where
  "buildQuery p user pageParam =
     (let startRange = pageParam * limit p;
          endRange = startRange + (limit p - 1);
          q0 = \<lparr> q_from = ''products'',
                 q_select = ''*, product_images(*), profiles:user_id(username, full_name, avatar_url)'',
                 q_range = (startRange, endRange),
                 q_filters = [],
                 q_order = None \<rparr>;
          q1 = filterWhen (searchQuery p \<noteq> [])
                 (Ilike ''title'' (''%'' @ searchQuery p @ ''%'')) q0;
          q2 = filterWhen (selectedCategory p \<noteq> ''all'')
                 (Eq ''category'' (StrVal (selectedCategory p))) q1;
          q3 = filterWhen (selectedRegion p \<noteq> [] \<and> selectedRegion p \<noteq> ''all'')
                 (Eq ''county'' (StrVal (selectedRegion p))) q2;
          q4 = filterWhen (selectedCountry p \<noteq> [] \<and> selectedCountry p \<noteq> ''all'')
                 (Eq ''country_id'' (NumberOf (selectedCountry p))) q3;
          q5 = filterWhen (showOnlyPublished p)
                 (Eq ''product_status'' (StrVal ''published'')) q4;
          q6 = userOnlyFilter (userOnly p) user q5
      in sortBy (sortOrder p) q6)"

text \<open>
  \<open>remote\<close> is the store answering a query with an error or with rows.  An error
  is rethrown, rows are returned.
\<close>

definition fetchProducts ::
    "params \<Rightarrow> auth_user option \<Rightarrow> (query \<Rightarrow> remote_error + 'row list) \<Rightarrow> int
       \<Rightarrow> remote_error + 'row list" where
  "fetchProducts p user remote pageParam =
     (case remote (buildQuery p user pageParam) of
        Inl error \<Rightarrow> Inl error
      | Inr data \<Rightarrow> Inr data)"

text \<open>\<open>getNextPageParam\<close> closes over \<open>limit\<close>; \<open>None\<close> is \<open>undefined\<close>.\<close>

definition getNextPageParam :: "params \<Rightarrow> 'row list \<Rightarrow> 'row list list \<Rightarrow> nat option" where
  "getNextPageParam p lastPage allPages =
     (if int (length lastPage) < limit p then None else Some (length allPages))"

text \<open>
  What \<open>prefetchNextPage\<close> reads of the infinite-query result, and the options it
  hands to \<open>queryClient.prefetchInfiniteQuery\<close> (besides \<open>queryFn: fetchProducts\<close>).
  \<open>None\<close> means that no call is made.
\<close>

record 'row query_result =
  data :: "'row list list option"
  isFetchingNextPage :: bool
  hasNextPage :: bool

record prefetch_options =
  prefetch_queryKey :: "key_part list"
  prefetch_initialPageParam :: int

definition prefetchNextPage :: "params \<Rightarrow> 'row query_result \<Rightarrow> prefetch_options option" where
  "prefetchNextPage p result =
     (case data result of
        None \<Rightarrow> None
      | Some pages \<Rightarrow>
          if \<not> isFetchingNextPage result \<and> hasNextPage result
          then (let nextPageParam = length pages
                in Some \<lparr> prefetch_queryKey = queryKey p, prefetch_initialPageParam = 0 \<rparr>)
          else None)"


section \<open>Auxiliary notions and example inputs\<close>

text \<open>
  In its last three lines the comparator depends on draft status alone; as a sort
  key, drafts carry \<open>0\<close> and everything else \<open>1\<close>.  \<open>defaultMode\<close> holds of a
  \<open>sortOrder\<close> that selects none of the four named modes.
\<close>

definition draftKey :: "product \<Rightarrow> nat" where
  "draftKey p = (if isDraft p then 0 else 1)"

definition defaultMode :: "string \<Rightarrow> bool" where
  "defaultMode so =
     (so \<noteq> ''price_asc'' \<and> so \<noteq> ''price_desc'' \<and> so \<noteq> ''newest'' \<and> so \<noteq> ''oldest'')"

text \<open>
  The filter predicate in the words of the specification: the search text is empty,
  or occurs case-insensitively in the title, the owner's username or the owner's full
  name; and the category is \<open>all\<close> or the product's own.
\<close>

definition occursIn :: "string \<Rightarrow> string option \<Rightarrow> bool" where
  "occursIn q field =
     (case field of None \<Rightarrow> False | Some s \<Rightarrow> sublist (toLowerCase q) (toLowerCase s))"

definition ownerUsername :: "product \<Rightarrow> string option" where
  "ownerUsername p = (case profiles p of None \<Rightarrow> None | Some pr \<Rightarrow> username pr)"

definition ownerFullName :: "product \<Rightarrow> string option" where
  "ownerFullName p = (case profiles p of None \<Rightarrow> None | Some pr \<Rightarrow> full_name pr)"

definition filterAsSpecified :: "string \<Rightarrow> string \<Rightarrow> product \<Rightarrow> bool" where
  "filterAsSpecified q cat p =
     ((q = [] \<or> occursIn q (title p) \<or> occursIn q (ownerUsername p) \<or> occursIn q (ownerFullName p))
      \<and> (cat = ''all'' \<or> category p = Some cat))"

definition exampleProduct :: "string \<Rightarrow> number option \<Rightarrow> string \<Rightarrow> product" where
  "exampleProduct name pr st =
     \<lparr> product_id = name, title = Some name, category = Some ''tools'', price = pr,
       created_at = 0, product_status = Some st, profiles = None \<rparr>"

definition exampleParams :: "int \<Rightarrow> params" where
  "exampleParams n =
     \<lparr> searchQuery = [], selectedCategory = ''all'', selectedRegion = ''all'',
       selectedCountry = ''all'', sortOrder = ''newest'', showOnlyPublished = False,
       userOnly = True, limit = n \<rparr>"

definition exampleRemote :: "query \<Rightarrow> remote_error + nat list" where
  "exampleRemote q =
     (if q_filters q = [] then Inr [1, 2, 3] else Inl (RemoteQueryError ''denied''))"

definition loadedResult :: "nat query_result" where
  "loadedResult =
     \<lparr> data = Some [[0, 1, 2, 3, 4, 5, 6, 7, 8, 9]], isFetchingNextPage = False,
       hasNextPage = True \<rparr>"


section \<open>The query built by fetchProducts\<close>

lemma q_range_steps:
  "q_range (filterWhen c f q) = q_range q"
  "q_range (userOnlyFilter b user q) = q_range q"
  "q_range (sortBy so q) = q_range q"
  by (simp_all add: filterWhen_def userOnlyFilter_def sortBy_def addFilter_def orderBy_def
        split: option.split)

lemma q_filters_steps:
  "q_filters (filterWhen c f q) = q_filters q @ (if c then [f] else [])"
  "q_filters (userOnlyFilter b user q) =
     q_filters q @
     (if b then (case user of Some u \<Rightarrow> [Eq ''user_id'' (StrVal (uid u))] | None \<Rightarrow> [])
      else [])"
  "q_filters (sortBy so q) = q_filters q"
  by (simp_all add: filterWhen_def userOnlyFilter_def sortBy_def addFilter_def orderBy_def
        split: option.split)

lemma buildQuery_range:
  "q_range (buildQuery p user pageParam) =
     (pageParam * limit p, pageParam * limit p + (limit p - 1))"
  by (simp add: buildQuery_def Let_def q_range_steps)

lemma buildQuery_filters:
  "q_filters (buildQuery p user pageParam) =
     (if searchQuery p \<noteq> [] then [Ilike ''title'' (''%'' @ searchQuery p @ ''%'')] else []) @
     (if selectedCategory p \<noteq> ''all''
      then [Eq ''category'' (StrVal (selectedCategory p))] else []) @
     (if selectedRegion p \<noteq> [] \<and> selectedRegion p \<noteq> ''all''
      then [Eq ''county'' (StrVal (selectedRegion p))] else []) @
     (if selectedCountry p \<noteq> [] \<and> selectedCountry p \<noteq> ''all''
      then [Eq ''country_id'' (NumberOf (selectedCountry p))] else []) @
     (if showOnlyPublished p then [Eq ''product_status'' (StrVal ''published'')] else []) @
     (if userOnly p
      then (case user of Some u \<Rightarrow> [Eq ''user_id'' (StrVal (uid u))] | None \<Rightarrow> [])
      else [])"
  unfolding buildQuery_def Let_def q_filters_steps by simp

lemma in_set_if_single: "x \<in> set (if c then [y] else []) \<longleftrightarrow> c \<and> x = y"
  by auto

lemma in_set_if_user:
  "x \<in> set (if c then (case user of Some u \<Rightarrow> [g u] | None \<Rightarrow> []) else []) \<longleftrightarrow>
     c \<and> (\<exists>u. user = Some u \<and> x = g u)"
  by (cases c; cases user) auto

lemma buildQuery_filter_cases:
  assumes "f \<in> set (q_filters (buildQuery p user pageParam))"
  shows "f = Ilike ''title'' (''%'' @ searchQuery p @ ''%'')
       \<or> f = Eq ''category'' (StrVal (selectedCategory p))
       \<or> f = Eq ''county'' (StrVal (selectedRegion p))
       \<or> f = Eq ''country_id'' (NumberOf (selectedCountry p))
       \<or> f = Eq ''product_status'' (StrVal ''published'')
       \<or> (userOnly p \<and> (\<exists>u. user = Some u \<and> f = Eq ''user_id'' (StrVal (uid u))))"
  using assms
  apply (simp only: buildQuery_filters)
  apply (simp only: set_append Un_iff in_set_if_single in_set_if_user)
  apply blast
  done

lemma buildQuery_user_id_filter:
  "userOnly p \<Longrightarrow>
     Eq ''user_id'' (StrVal (uid u)) \<in> set (q_filters (buildQuery p (Some u) pageParam))"
  by (simp add: buildQuery_filters)

lemma buildQuery_no_user:
  "buildQuery p None pageParam = buildQuery (p\<lparr>userOnly := False\<rparr>) user pageParam"
  by (simp add: buildQuery_def Let_def userOnlyFilter_def)

text \<open>
  C1.  For every page index and page size, \<open>fetchProducts\<close> asks the remote store for
  the query whose row range is \<open>[p * limit, p * limit + limit - 1]\<close>, and answers with
  what the store answers to that query.
\<close>

theorem fetchProducts_range:
  "q_range (buildQuery p user pageParam) =
     (pageParam * limit p, pageParam * limit p + limit p - 1)
   \<and> fetchProducts p user remote pageParam = remote (buildQuery p user pageParam)"
  by (simp add: buildQuery_range fetchProducts_def split: sum.splits)


section \<open>Pagination\<close>

text \<open>
  C2.  \<open>getNextPageParam\<close> answers \<open>undefined\<close> exactly when the last page is
  shorter than \<open>limit\<close>; otherwise it answers the number of pages fetched so far.
\<close>

theorem getNextPageParam_last_page:
  "(getNextPageParam p lastPage allPages = None \<longleftrightarrow> int (length lastPage) < limit p)
   \<and> (\<not> int (length lastPage) < limit p \<longrightarrow>
        getNextPageParam p lastPage allPages = Some (length allPages))"
  by (simp add: getNextPageParam_def)

theorem getNextPageParam_last_page_witness:
  "\<not> int (length [1, 2 :: nat]) < limit (exampleParams 2)
   \<and> getNextPageParam (exampleParams 2) [1, 2 :: nat] [[3, 4], [1, 2]] = Some 2
   \<and> getNextPageParam (exampleParams 2) [1 :: nat] [[3, 4], [1]] = None"
  using getNextPageParam_last_page [of "exampleParams 2" "[1, 2 :: nat]" "[[3, 4], [1, 2]]"]
    getNextPageParam_last_page [of "exampleParams 2" "[1 :: nat]" "[[3, 4], [1]]"]
  by (simp add: exampleParams_def)


section \<open>The cache key\<close>

text \<open>The key separates two parameter tuples exactly when they differ outside \<open>limit\<close>.\<close>

lemma queryKey_eq_iff:
  "queryKey p = queryKey p' \<longleftrightarrow>
     searchQuery p = searchQuery p' \<and> selectedCategory p = selectedCategory p' \<and>
     selectedRegion p = selectedRegion p' \<and> selectedCountry p = selectedCountry p' \<and>
     sortOrder p = sortOrder p' \<and> showOnlyPublished p = showOnlyPublished p' \<and>
     userOnly p = userOnly p'"
  by (simp add: queryKey_def)

text \<open>
  C5.  The claim is that the cache key separates any two different parameter tuples,
  page size included.  The key has no \<open>limit\<close> component: the tuples with page size
  10 and 20 differ, share their key, and ask for different rows as page 1.
\<close>

theorem queryKey_omits_limit:
  "exampleParams 10 \<noteq> exampleParams 20
   \<and> queryKey (exampleParams 10) = queryKey (exampleParams 20)
   \<and> q_range (buildQuery (exampleParams 10) None 1) = (10, 19)
   \<and> q_range (buildQuery (exampleParams 20) None 1) = (20, 39)"
  by (simp add: exampleParams_def queryKey_def buildQuery_range)


section \<open>Prefetch\<close>

lemma prefetchNextPage_guard:
  "prefetchNextPage p r = None \<longleftrightarrow>
     data r = None \<or> isFetchingNextPage r \<or> \<not> hasNextPage r"
  by (simp add: prefetchNextPage_def Let_def split: option.splits)

lemma prefetchNextPage_options:
  "prefetchNextPage p r = Some opts \<Longrightarrow>
     opts = \<lparr> prefetch_queryKey = queryKey p, prefetch_initialPageParam = 0 \<rparr>"
  by (auto simp add: prefetchNextPage_def Let_def split: option.splits if_splits)

text \<open>
  C6.  The claim is that a prefetch which passes its guard requests the next page
  index, the number of pages already fetched.  With one full page loaded, nothing in
  flight and a next page known, that index is 1; the call that is issued carries the
  cache key and the initial page parameter 0, and the index is not part of it.
\<close>

theorem prefetchNextPage_drops_next_index:
  "prefetchNextPage (exampleParams 10) loadedResult =
     Some \<lparr> prefetch_queryKey = queryKey (exampleParams 10), prefetch_initialPageParam = 0 \<rparr>
   \<and> map_option length (data loadedResult) = Some 1
   \<and> getNextPageParam (exampleParams 10) (last (the (data loadedResult)))
        (the (data loadedResult)) = Some 1"
  by (simp add: prefetchNextPage_def loadedResult_def Let_def getNextPageParam_def
        exampleParams_def)


section \<open>The userOnly filter\<close>

text \<open>
  C7.  The fetch sends the store the query built for the identity at hand and answers
  with the store's answer.  With \<open>userOnly\<close> set and an identity \<open>u\<close>, that query
  carries the filter \<open>user_id = u.id\<close>.  Without an identity the query has no filter
  on \<open>user_id\<close> and is the query that \<open>userOnly = false\<close> builds, so the fetch
  returns the rows the store returns for it.
\<close>

theorem fetchProducts_userOnly:
  "(userOnly p \<longrightarrow>
      Eq ''user_id'' (StrVal (uid u)) \<in> set (q_filters (buildQuery p (Some u) pageParam)))
   \<and> fetchProducts p (Some u) remote pageParam = remote (buildQuery p (Some u) pageParam)
   \<and> (\<forall>f \<in> set (q_filters (buildQuery p None pageParam)). filterColumn f \<noteq> ''user_id'')
   \<and> buildQuery p None pageParam = buildQuery (p\<lparr>userOnly := False\<rparr>) user pageParam
   \<and> fetchProducts p None remote pageParam = remote (buildQuery p None pageParam)
   \<and> (remote (buildQuery (p\<lparr>userOnly := False\<rparr>) user pageParam) = Inr rows \<longrightarrow>
        fetchProducts p None remote pageParam = Inr rows)"
proof (intro conjI impI ballI)
  assume "userOnly p"
  then show "Eq ''user_id'' (StrVal (uid u)) \<in> set (q_filters (buildQuery p (Some u) pageParam))"
    by (rule buildQuery_user_id_filter)
next
  show "fetchProducts p (Some u) remote pageParam = remote (buildQuery p (Some u) pageParam)"
    by (simp add: fetchProducts_def split: sum.splits)
next
  fix f assume "f \<in> set (q_filters (buildQuery p None pageParam))"
  then show "filterColumn f \<noteq> ''user_id''"
    using buildQuery_filter_cases [of f p None pageParam] by auto
next
  show "buildQuery p None pageParam = buildQuery (p\<lparr>userOnly := False\<rparr>) user pageParam"
    by (rule buildQuery_no_user)
next
  show "fetchProducts p None remote pageParam = remote (buildQuery p None pageParam)"
    by (simp add: fetchProducts_def split: sum.splits)
next
  assume "remote (buildQuery (p\<lparr>userOnly := False\<rparr>) user pageParam) = Inr rows"
  then show "fetchProducts p None remote pageParam = Inr rows"
    by (simp add: fetchProducts_def buildQuery_no_user [of p pageParam user])
qed

text \<open>
  On a store that refuses every filtered query, the fetch with an identity is refused
  (its query carries the \<open>user_id\<close> filter) and the fetch without one gets the rows.
\<close>

theorem fetchProducts_userOnly_witness:
  "userOnly (exampleParams 10)
   \<and> Eq ''user_id'' (StrVal ''u1'')
       \<in> set (q_filters (buildQuery (exampleParams 10) (Some \<lparr>uid = ''u1''\<rparr>) 0))
   \<and> fetchProducts (exampleParams 10) (Some \<lparr>uid = ''u1''\<rparr>) exampleRemote 0
       = Inl (RemoteQueryError ''denied'')
   \<and> q_filters (buildQuery (exampleParams 10) None 0) = []
   \<and> exampleRemote (buildQuery ((exampleParams 10)\<lparr>userOnly := False\<rparr>) None 0) = Inr [1, 2, 3]
   \<and> fetchProducts (exampleParams 10) None exampleRemote 0 = Inr [1, 2, 3]"
  using fetchProducts_userOnly
          [where p = "exampleParams 10" and u = "\<lparr>uid = ''u1''\<rparr>" and pageParam = 0
             and user = None and remote = exampleRemote and rows = "[1, 2, 3]"]
  by (simp add: exampleParams_def exampleRemote_def buildQuery_filters)


section \<open>The sort of the local view\<close>

text \<open>
  Where the comparator compares a key, the array sort is the stable insertion sort on
  that key.
\<close>

lemma insert_by_insort_key:
  assumes "\<And>x y. cmp x y \<le> 0 \<longleftrightarrow> f x \<le> f y"
  shows "insert_by cmp x ys = insort_key f x ys"
  by (induction ys) (simp_all add: assms)

lemma array_sort_sort_key:
  assumes "\<And>x y. cmp x y \<le> 0 \<longleftrightarrow> f x \<le> f y"
  shows "array_sort cmp xs = sort_key f xs"
  by (induction xs) (simp_all add: insert_by_insort_key [OF assms])

lemma mset_insert_by: "mset (insert_by cmp x ys) = add_mset x (mset ys)"
  by (induction ys) simp_all

lemma mset_array_sort: "mset (array_sort cmp xs) = mset xs"
  by (induction xs) (simp_all add: mset_insert_by)

text \<open>
  Any arrangement of the input that is sorted on the key and keeps equal keys in input
  order is the one \<open>array_sort\<close> computes, so the choice of algorithm does not
  show in the result.
\<close>

lemma array_sort_determined:
  assumes key: "\<And>x y. cmp x y \<le> 0 \<longleftrightarrow> f x \<le> f y"
    and perm: "mset ys = mset xs"
    and sorted: "sorted (map f ys)"
    and stable: "\<And>k. k \<in> set ys \<Longrightarrow>
                   filter (\<lambda>x. f k = f x) ys = filter (\<lambda>x. f k = f x) xs"
  shows "array_sort cmp xs = ys"
  using properties_for_sort_key [OF perm stable sorted]
  by (simp add: array_sort_sort_key [OF key])

lemma sort_price_asc: "array_sort (compareProducts ''price_asc'') xs = sort_key priceOrZero xs"
  by (rule array_sort_sort_key) (simp add: compareProducts_def)

lemma sort_price_desc:
  "array_sort (compareProducts ''price_desc'') xs = sort_key (\<lambda>p. - priceOrZero p) xs"
  by (rule array_sort_sort_key) (simp add: compareProducts_def)

lemma sort_newest:
  "array_sort (compareProducts ''newest'') xs = sort_key (\<lambda>p. - created_at p) xs"
  by (rule array_sort_sort_key) (simp add: compareProducts_def)

lemma sort_oldest:
  "array_sort (compareProducts ''oldest'') xs = sort_key created_at xs"
  by (rule array_sort_sort_key) (simp add: compareProducts_def)

lemma sort_default:
  assumes "defaultMode so"
  shows "array_sort (compareProducts so) xs = sort_key draftKey xs"
  using assms
  by (intro array_sort_sort_key) (simp add: compareProducts_def draftKey_def defaultMode_def)

text \<open>A list sorted on a key falls into the blocks below, at and above any key value.\<close>

lemma sorted_three_way:
  fixes f :: "'a \<Rightarrow> 'k::linorder"
  assumes "sorted (map f xs)"
  shows "xs = filter (\<lambda>x. f x < k) xs @ filter (\<lambda>x. f x = k) xs @ filter (\<lambda>x. k < f x) xs"
  using assms
proof (induction xs)
  case Nil
  then show ?case by simp
next
  case (Cons a xs)
  then have le: "\<forall>y\<in>set xs. f a \<le> f y"
    and IH: "xs = filter (\<lambda>x. f x < k) xs @ filter (\<lambda>x. f x = k) xs
                  @ filter (\<lambda>x. k < f x) xs"
    by simp_all
  consider "f a < k" | "f a = k" | "k < f a" by (rule linorder_cases)
  then show ?case
  proof cases
    case 1
    then show ?thesis using IH [symmetric] by auto
  next
    case 2
    then have "filter (\<lambda>x. f x < k) xs = []" using le by (auto simp: filter_empty_conv)
    then show ?thesis using 2 IH [symmetric] by simp
  next
    case 3
    then have "filter (\<lambda>x. f x < k) xs = []" "filter (\<lambda>x. f x = k) xs = []"
      using le by (auto simp: filter_empty_conv)
    then show ?thesis using 3 IH [symmetric] by simp
  qed
qed

lemma draftKey_le: "draftKey a \<le> draftKey b \<longleftrightarrow> (isDraft b \<longrightarrow> isDraft a)"
  by (simp add: draftKey_def)

lemma sorted_price_asc:
  "sorted_wrt (\<lambda>a b. priceOrZero a \<le> priceOrZero b) (array_sort (compareProducts ''price_asc'') xs)"
  using sorted_sort_key [of priceOrZero xs] by (simp add: sort_price_asc sorted_map)

lemma sorted_price_desc:
  "sorted_wrt (\<lambda>a b. priceOrZero b \<le> priceOrZero a) (array_sort (compareProducts ''price_desc'') xs)"
  using sorted_sort_key [of "\<lambda>p. - priceOrZero p" xs] by (simp add: sort_price_desc sorted_map)

lemma sorted_newest:
  "sorted_wrt (\<lambda>a b. created_at b \<le> created_at a) (array_sort (compareProducts ''newest'') xs)"
  using sorted_sort_key [of "\<lambda>p. - created_at p" xs] by (simp add: sort_newest sorted_map)

lemma sorted_oldest:
  "sorted_wrt (\<lambda>a b. created_at a \<le> created_at b) (array_sort (compareProducts ''oldest'') xs)"
  using sorted_sort_key [of created_at xs] by (simp add: sort_oldest sorted_map)

lemma sorted_default:
  assumes "defaultMode so"
  shows "sorted_wrt (\<lambda>a b. isDraft b \<longrightarrow> isDraft a) (array_sort (compareProducts so) xs)"
  using sorted_sort_key [of draftKey xs] by (simp add: sort_default [OF assms] sorted_map draftKey_le)

lemma default_partition:
  assumes "defaultMode so"
  shows "array_sort (compareProducts so) xs = filter isDraft xs @ filter (\<lambda>p. \<not> isDraft p) xs"
proof -
  let ?out = "sort_key draftKey xs"
  have k0: "(\<lambda>x. draftKey x = 0) = isDraft"
    and k1: "(\<lambda>x. draftKey x = 1) = (\<lambda>x. \<not> isDraft x)"
    and kpos: "(\<lambda>x. 0 < draftKey x) = (\<lambda>x. \<not> isDraft x)"
    and kneg: "(\<lambda>x. draftKey x < 0) = (\<lambda>x. False)"
    by (simp_all add: draftKey_def fun_eq_iff)
  have "sorted (map draftKey ?out)" by simp
  from sorted_three_way [OF this, of 0]
  have "?out = filter isDraft ?out @ filter (\<lambda>x. \<not> isDraft x) ?out"
    unfolding k0 kpos kneg by simp
  moreover have "filter isDraft ?out = filter isDraft xs"
    using sort_key_stable [of draftKey 0 xs] unfolding k0 .
  moreover have "filter (\<lambda>x. \<not> isDraft x) ?out = filter (\<lambda>x. \<not> isDraft x) xs"
    using sort_key_stable [of draftKey 1 xs] unfolding k1 .
  ultimately show ?thesis by (simp add: sort_default [OF assms])
qed

lemma price_asc_blocks:
  "array_sort (compareProducts ''price_asc'') xs =
     filter (\<lambda>p. priceOrZero p < 0) (array_sort (compareProducts ''price_asc'') xs)
     @ filter (\<lambda>p. priceOrZero p = 0) xs
     @ filter (\<lambda>p. 0 < priceOrZero p) (array_sort (compareProducts ''price_asc'') xs)"
proof -
  let ?out = "sort_key priceOrZero xs"
  have "?out = filter (\<lambda>x. priceOrZero x < 0) ?out @ filter (\<lambda>x. priceOrZero x = 0) ?out
                 @ filter (\<lambda>x. 0 < priceOrZero x) ?out"
    by (rule sorted_three_way) simp
  moreover have "filter (\<lambda>x. priceOrZero x = 0) ?out = filter (\<lambda>x. priceOrZero x = 0) xs"
    by (rule sort_key_stable)
  ultimately show ?thesis by (simp add: sort_price_asc)
qed

lemma price_desc_blocks:
  "array_sort (compareProducts ''price_desc'') xs =
     filter (\<lambda>p. 0 < priceOrZero p) (array_sort (compareProducts ''price_desc'') xs)
     @ filter (\<lambda>p. priceOrZero p = 0) xs
     @ filter (\<lambda>p. priceOrZero p < 0) (array_sort (compareProducts ''price_desc'') xs)"
proof -
  let ?k = "\<lambda>p. - priceOrZero p"
  let ?out = "sort_key ?k xs"
  have "?out = filter (\<lambda>x. ?k x < 0) ?out @ filter (\<lambda>x. ?k x = 0) ?out
                 @ filter (\<lambda>x. 0 < ?k x) ?out"
    by (rule sorted_three_way) simp
  moreover have "filter (\<lambda>x. ?k x = 0) ?out = filter (\<lambda>x. ?k x = 0) xs"
    by (rule sort_key_stable)
  ultimately show ?thesis by (simp add: sort_price_desc)
qed


section \<open>The filter of the local view\<close>

lemma str_includes_sublist: "str_includes s q \<longleftrightarrow> sublist q s"
  by (induction s) (simp_all add: sublist_Cons_right)

lemma ws_lower: "isWhiteSpace (lowerChar c) = isWhiteSpace c"
  by (simp add: isWhiteSpace_def lowerChar_def Let_def)

lemma trim_empty_iff: "trim s = [] \<longleftrightarrow> (\<forall>c \<in> set s. isWhiteSpace c)"
proof -
  have "trim s = [] \<longleftrightarrow> (\<forall>c \<in> set (dropWhile isWhiteSpace s). isWhiteSpace c)"
    by (simp add: trim_def)
  also have "\<dots> \<longleftrightarrow> dropWhile isWhiteSpace s = []"
    using hd_dropWhile [of isWhiteSpace s]
    by (cases "dropWhile isWhiteSpace s") (auto dest: set_dropWhileD)
  also have "\<dots> \<longleftrightarrow> (\<forall>c \<in> set s. isWhiteSpace c)"
    by simp
  finally show ?thesis .
qed

lemma trim_toLowerCase_empty_iff: "trim (toLowerCase s) = [] \<longleftrightarrow> (\<forall>c \<in> set s. isWhiteSpace c)"
  by (simp add: trim_empty_iff toLowerCase_def ws_lower)

lemma fieldIncludes_iff:
  "fieldIncludes field q \<longleftrightarrow> (\<exists>s. field = Some s \<and> sublist (toLowerCase q) (toLowerCase s))"
  by (cases field) (simp_all add: fieldIncludes_def str_includes_sublist)

lemma productFilter_empty_all: "productFilter [] ''all'' p"
  by (simp add: productFilter_def matchesSearch_def matchesCategory_def trim_def toLowerCase_def)

lemma toLowerCase_examples:
  "toLowerCase ''aB'' = ''ab''" "toLowerCase ''xAby'' = ''xaby''"
  by (simp_all add: toLowerCase_def lowerChar_def char_of_def bit_Suc_0_iff)

text \<open>
  C3 as stated fails on a search text of one blank: it is not empty and occurs in none
  of the fields of a product titled \<open>abc\<close> without owner profile, yet the product
  passes the filter, because the source tests the trimmed search text for emptiness.
\<close>

theorem productFilter_blank_search_counterexample:
  "productFilter '' '' ''all'' (exampleProduct ''abc'' None ''published'')
   \<and> \<not> filterAsSpecified '' '' ''all'' (exampleProduct ''abc'' None ''published'')"
  by (simp add: productFilter_def matchesSearch_def matchesCategory_def trim_def
        isWhiteSpace_def filterAsSpecified_def occursIn_def exampleProduct_def
        ownerUsername_def ownerFullName_def toLowerCase_def lowerChar_def sublist_code)

text \<open>
  C3, amended.  A product passes the filter if and only if the search text consists of
  white space only (in particular, is empty) or occurs case-insensitively as a
  contiguous part of the title, of the owner's username or of the owner's full name,
  and the selected category is \<open>all\<close> or equals the product's category.
\<close>

theorem productFilter_passes_iff:
  "productFilter q cat p \<longleftrightarrow>
     ((\<forall>c \<in> set q. isWhiteSpace c)
      \<or> (\<exists>t. title p = Some t \<and> sublist (toLowerCase q) (toLowerCase t))
      \<or> (\<exists>pr u. profiles p = Some pr \<and> username pr = Some u
                 \<and> sublist (toLowerCase q) (toLowerCase u))
      \<or> (\<exists>pr n. profiles p = Some pr \<and> full_name pr = Some n
                 \<and> sublist (toLowerCase q) (toLowerCase n)))
     \<and> (cat = ''all'' \<or> category p = Some cat)"
  by (cases "profiles p")
     (simp_all add: productFilter_def matchesSearch_def matchesCategory_def
        trim_toLowerCase_empty_iff fieldIncludes_iff)

theorem productFilter_passes_iff_witness:
  "list_all isWhiteSpace '' ''
   \<and> productFilter '' '' ''all'' (exampleProduct ''abc'' None ''published'')
   \<and> productFilter ''aB'' ''tools'' (exampleProduct ''xAby'' None ''published'')
   \<and> \<not> productFilter ''aB'' ''toys'' (exampleProduct ''xAby'' None ''published'')"
  using productFilter_passes_iff [of "'' ''" "''all''" "exampleProduct ''abc'' None ''published''"]
    productFilter_passes_iff [of "''aB''" "''tools''" "exampleProduct ''xAby'' None ''published''"]
    productFilter_passes_iff [of "''aB''" "''toys''" "exampleProduct ''xAby'' None ''published''"]
  by (simp add: exampleProduct_def isWhiteSpace_def toLowerCase_examples sublist_code)


section \<open>The order of the local view\<close>

text \<open>
  C4.  The view is a rearrangement of the products that pass the filter.  It is in
  ascending price order under \<open>price_asc\<close>, in descending price order under
  \<open>price_desc\<close>, in descending order of creation time under \<open>newest\<close> and in
  ascending order of creation time under \<open>oldest\<close>; under any other
  \<open>sortOrder\<close> no draft stands behind a product that is not a draft.  Products
  priced 10, 30, 20 come out as 10, 20, 30 under \<open>price_asc\<close> and as 30, 20, 10 under
  \<open>price_desc\<close>.
\<close>

theorem filteredAndSortedProducts_order:
  "mset (filteredAndSortedProducts ps q cat so) = mset (filter (productFilter q cat) ps)
   \<and> sorted_wrt (\<lambda>a b. priceOrZero a \<le> priceOrZero b)
        (filteredAndSortedProducts ps q cat ''price_asc'')
   \<and> sorted_wrt (\<lambda>a b. priceOrZero b \<le> priceOrZero a)
        (filteredAndSortedProducts ps q cat ''price_desc'')
   \<and> sorted_wrt (\<lambda>a b. created_at b \<le> created_at a)
        (filteredAndSortedProducts ps q cat ''newest'')
   \<and> sorted_wrt (\<lambda>a b. created_at a \<le> created_at b)
        (filteredAndSortedProducts ps q cat ''oldest'')
   \<and> (defaultMode so \<longrightarrow>
        sorted_wrt (\<lambda>a b. isDraft b \<longrightarrow> isDraft a) (filteredAndSortedProducts ps q cat so))
   \<and> map price
        (filteredAndSortedProducts
           [exampleProduct ''a'' (Some 10) ''published'', exampleProduct ''b'' (Some 30) ''published'',
            exampleProduct ''c'' (Some 20) ''published''] [] ''all'' ''price_asc'')
      = [Some 10, Some 20, Some 30]
   \<and> map price
        (filteredAndSortedProducts
           [exampleProduct ''a'' (Some 10) ''published'', exampleProduct ''b'' (Some 30) ''published'',
            exampleProduct ''c'' (Some 20) ''published''] [] ''all'' ''price_desc'')
      = [Some 30, Some 20, Some 10]"
proof (intro conjI impI)
  show "mset (filteredAndSortedProducts ps q cat so) = mset (filter (productFilter q cat) ps)"
    by (simp add: filteredAndSortedProducts_def mset_array_sort)
  show "sorted_wrt (\<lambda>a b. priceOrZero a \<le> priceOrZero b)
          (filteredAndSortedProducts ps q cat ''price_asc'')"
    unfolding filteredAndSortedProducts_def by (rule sorted_price_asc)
  show "sorted_wrt (\<lambda>a b. priceOrZero b \<le> priceOrZero a)
          (filteredAndSortedProducts ps q cat ''price_desc'')"
    unfolding filteredAndSortedProducts_def by (rule sorted_price_desc)
  show "sorted_wrt (\<lambda>a b. created_at b \<le> created_at a)
          (filteredAndSortedProducts ps q cat ''newest'')"
    unfolding filteredAndSortedProducts_def by (rule sorted_newest)
  show "sorted_wrt (\<lambda>a b. created_at a \<le> created_at b)
          (filteredAndSortedProducts ps q cat ''oldest'')"
    unfolding filteredAndSortedProducts_def by (rule sorted_oldest)
  show "sorted_wrt (\<lambda>a b. isDraft b \<longrightarrow> isDraft a) (filteredAndSortedProducts ps q cat so)"
    if "defaultMode so"
    unfolding filteredAndSortedProducts_def using that by (rule sorted_default)
  show "map price
        (filteredAndSortedProducts
           [exampleProduct ''a'' (Some 10) ''published'', exampleProduct ''b'' (Some 30) ''published'',
            exampleProduct ''c'' (Some 20) ''published''] [] ''all'' ''price_asc'')
      = [Some 10, Some 20, Some 30]"
    by (simp add: filteredAndSortedProducts_def productFilter_empty_all compareProducts_def
          priceOrZero_def exampleProduct_def)
  show "map price
        (filteredAndSortedProducts
           [exampleProduct ''a'' (Some 10) ''published'', exampleProduct ''b'' (Some 30) ''published'',
            exampleProduct ''c'' (Some 20) ''published''] [] ''all'' ''price_desc'')
      = [Some 30, Some 20, Some 10]"
    by (simp add: filteredAndSortedProducts_def productFilter_empty_all compareProducts_def
          priceOrZero_def exampleProduct_def)
qed

theorem filteredAndSortedProducts_order_witness:
  "defaultMode ''none''
   \<and> sorted_wrt (\<lambda>a b. isDraft b \<longrightarrow> isDraft a)
        (filteredAndSortedProducts
           [exampleProduct ''p'' (Some 5) ''published'', exampleProduct ''d'' (Some 7) ''draft'']
           [] ''all'' ''none'')"
  using filteredAndSortedProducts_order
     [of "[exampleProduct ''p'' (Some 5) ''published'', exampleProduct ''d'' (Some 7) ''draft'']"
         "[]" "''all''" "''none''"]
  by (simp add: defaultMode_def)

text \<open>
  C8 as stated fails: in the default mode the view of a published product followed by
  a draft lists the draft first, not last.
\<close>

theorem default_mode_drafts_last_counterexample:
  "filteredAndSortedProducts
     [exampleProduct ''p'' (Some 5) ''published'', exampleProduct ''d'' (Some 7) ''draft'']
     [] ''all'' ''none''
   = [exampleProduct ''d'' (Some 7) ''draft'', exampleProduct ''p'' (Some 5) ''published'']
   \<and> isDraft (exampleProduct ''d'' (Some 7) ''draft'')
   \<and> \<not> isDraft (exampleProduct ''p'' (Some 5) ''published'')"
  by (simp add: filteredAndSortedProducts_def productFilter_empty_all compareProducts_def isDraft_def
        exampleProduct_def)

text \<open>
  C8, amended.  In the default sort mode the drafts are ordered first, before all
  products that are not drafts; within each of the two groups the products keep the
  order of the input.
\<close>

theorem default_mode_drafts_first:
  assumes "defaultMode so"
  shows "filteredAndSortedProducts ps q cat so =
           filter isDraft (filter (productFilter q cat) ps)
           @ filter (\<lambda>p. \<not> isDraft p) (filter (productFilter q cat) ps)"
  unfolding filteredAndSortedProducts_def using assms by (rule default_partition)

theorem default_mode_drafts_first_witness:
  "defaultMode ''none''
   \<and> filteredAndSortedProducts
       [exampleProduct ''p'' (Some 5) ''published'', exampleProduct ''d'' (Some 7) ''draft'',
        exampleProduct ''q'' None ''published'']
       [] ''all'' ''none''
     = [exampleProduct ''d'' (Some 7) ''draft'', exampleProduct ''p'' (Some 5) ''published'',
        exampleProduct ''q'' None ''published'']"
proof -
  have m: "defaultMode ''none''" by (simp add: defaultMode_def)
  show ?thesis
    using m default_mode_drafts_first [OF m,
      of "[exampleProduct ''p'' (Some 5) ''published'', exampleProduct ''d'' (Some 7) ''draft'',
        exampleProduct ''q'' None ''published'']" "[]" "''all''"]
    by (simp add: productFilter_empty_all isDraft_def exampleProduct_def)
qed


section \<open>The input array is left alone\<close>

text \<open>
  C9.  Deriving the view from the array at address \<open>products\<close> succeeds, allocates
  one array for the view, and leaves every array that was in the store, the input
  among them, with the same elements in the same order.
\<close>

theorem filteredAndSortedProducts_store_frame:
  assumes "products < length h"
  shows "\<exists>h' r. filteredAndSortedProducts_store products q cat so h = Some (h', r)
           \<and> h' ! products = h ! products
           \<and> take (length h) h' = h
           \<and> r = length h
           \<and> h' ! r = filteredAndSortedProducts (h ! products) q cat so"
  using assms
  by (simp add: filteredAndSortedProducts_store_def store_filter_def store_sort_def
        filteredAndSortedProducts_def nth_append)

theorem filteredAndSortedProducts_store_frame_witness:
  "(0::nat) < length [[exampleProduct ''p'' (Some 5) ''published'', exampleProduct ''d'' (Some 7) ''draft'']]
   \<and> (\<exists>h' r. filteredAndSortedProducts_store 0 [] ''all'' ''none''
                 [[exampleProduct ''p'' (Some 5) ''published'', exampleProduct ''d'' (Some 7) ''draft'']]
               = Some (h', r)
             \<and> h' ! 0 = [exampleProduct ''p'' (Some 5) ''published'', exampleProduct ''d'' (Some 7) ''draft'']
             \<and> r = 1)"
  using filteredAndSortedProducts_store_frame
     [of 0 "[[exampleProduct ''p'' (Some 5) ''published'', exampleProduct ''d'' (Some 7) ''draft'']]"
         "[]" "''all''" "''none''"]
  by auto


section \<open>Products without a price\<close>

lemma compareProducts_absent:
  assumes "price a = None"
  shows "compareProducts so (a\<lparr>price := Some 0\<rparr>) b = compareProducts so a b"
    and "compareProducts so b (a\<lparr>price := Some 0\<rparr>) = compareProducts so b a"
  using assms by (simp_all add: compareProducts_def priceOrZero_def isDraft_def)

lemma set_filteredAndSortedProducts:
  "set (filteredAndSortedProducts ps q cat so) = set (filter (productFilter q cat) ps)"
  using mset_array_sort [of "compareProducts so" "filter (productFilter q cat) ps"]
  unfolding filteredAndSortedProducts_def by (metis set_mset_mset)

text \<open>
  C10 as stated fails next to a product with a negative price: there a product without
  a price is not first under \<open>price_asc\<close>, nor last under \<open>price_desc\<close>.
\<close>

theorem absent_price_first_counterexample:
  "price (exampleProduct ''n'' None ''published'') = None
   \<and> filteredAndSortedProducts
       [exampleProduct ''n'' None ''published'', exampleProduct ''m'' (Some (- 5)) ''published'']
       [] ''all'' ''price_asc''
     = [exampleProduct ''m'' (Some (- 5)) ''published'', exampleProduct ''n'' None ''published'']
   \<and> filteredAndSortedProducts
       [exampleProduct ''m'' (Some (- 5)) ''published'', exampleProduct ''n'' None ''published'']
       [] ''all'' ''price_desc''
     = [exampleProduct ''n'' None ''published'', exampleProduct ''m'' (Some (- 5)) ''published'']"
  by (simp add: filteredAndSortedProducts_def productFilter_empty_all compareProducts_def
        priceOrZero_def exampleProduct_def)

text \<open>
  C10, amended.  In the two price modes a product whose price is absent is compared
  as if its price were 0, and the products whose price is absent or 0 form one block of
  the view, in their input order: behind the products with a negative price and before
  those with a positive price under \<open>price_asc\<close>, the other way round under
  \<open>price_desc\<close>.  When no price is negative the block is first under
  \<open>price_asc\<close> and last under \<open>price_desc\<close>.
\<close>

theorem absent_price_sorts_as_zero:
  "(price a = None \<longrightarrow>
      compareProducts so (a\<lparr>price := Some 0\<rparr>) b = compareProducts so a b
      \<and> compareProducts so b (a\<lparr>price := Some 0\<rparr>) = compareProducts so b a)
   \<and> (priceOrZero x = 0 \<longleftrightarrow> price x = None \<or> price x = Some 0)
   \<and> filteredAndSortedProducts ps q cat ''price_asc'' =
       filter (\<lambda>p. priceOrZero p < 0) (filteredAndSortedProducts ps q cat ''price_asc'')
       @ filter (\<lambda>p. priceOrZero p = 0) (filter (productFilter q cat) ps)
       @ filter (\<lambda>p. 0 < priceOrZero p) (filteredAndSortedProducts ps q cat ''price_asc'')
   \<and> filteredAndSortedProducts ps q cat ''price_desc'' =
       filter (\<lambda>p. 0 < priceOrZero p) (filteredAndSortedProducts ps q cat ''price_desc'')
       @ filter (\<lambda>p. priceOrZero p = 0) (filter (productFilter q cat) ps)
       @ filter (\<lambda>p. priceOrZero p < 0) (filteredAndSortedProducts ps q cat ''price_desc'')
   \<and> ((\<forall>p \<in> set ps. 0 \<le> priceOrZero p) \<longrightarrow>
        filteredAndSortedProducts ps q cat ''price_asc'' =
          filter (\<lambda>p. priceOrZero p = 0) (filter (productFilter q cat) ps)
          @ filter (\<lambda>p. 0 < priceOrZero p) (filteredAndSortedProducts ps q cat ''price_asc'')
        \<and> filteredAndSortedProducts ps q cat ''price_desc'' =
          filter (\<lambda>p. 0 < priceOrZero p) (filteredAndSortedProducts ps q cat ''price_desc'')
          @ filter (\<lambda>p. priceOrZero p = 0) (filter (productFilter q cat) ps))"
proof -
  let ?fs = "filter (productFilter q cat) ps"
  let ?asc = "filteredAndSortedProducts ps q cat ''price_asc''"
  let ?desc = "filteredAndSortedProducts ps q cat ''price_desc''"
  have cmp: "price a = None \<longrightarrow>
      compareProducts so (a\<lparr>price := Some 0\<rparr>) b = compareProducts so a b
      \<and> compareProducts so b (a\<lparr>price := Some 0\<rparr>) = compareProducts so b a"
    by (simp add: compareProducts_absent)
  have asc: "?asc = filter (\<lambda>p. priceOrZero p < 0) ?asc
               @ filter (\<lambda>p. priceOrZero p = 0) ?fs @ filter (\<lambda>p. 0 < priceOrZero p) ?asc"
    unfolding filteredAndSortedProducts_def by (rule price_asc_blocks)
  have desc: "?desc = filter (\<lambda>p. 0 < priceOrZero p) ?desc
               @ filter (\<lambda>p. priceOrZero p = 0) ?fs @ filter (\<lambda>p. priceOrZero p < 0) ?desc"
    unfolding filteredAndSortedProducts_def by (rule price_desc_blocks)
  have nonneg: "filter (\<lambda>p. priceOrZero p < 0) (filteredAndSortedProducts ps q cat m) = []"
    if "\<forall>p \<in> set ps. 0 \<le> priceOrZero p" for m
    using that by (auto simp add: filter_empty_conv set_filteredAndSortedProducts)
  have asc': "?asc = filter (\<lambda>p. priceOrZero p = 0) ?fs @ filter (\<lambda>p. 0 < priceOrZero p) ?asc"
    if "\<forall>p \<in> set ps. 0 \<le> priceOrZero p"
    using asc nonneg [OF that, of "''price_asc''"] by simp
  have desc': "?desc = filter (\<lambda>p. 0 < priceOrZero p) ?desc @ filter (\<lambda>p. priceOrZero p = 0) ?fs"
    if "\<forall>p \<in> set ps. 0 \<le> priceOrZero p"
    using desc nonneg [OF that, of "''price_desc''"] by simp
  have zero: "priceOrZero x = 0 \<longleftrightarrow> price x = None \<or> price x = Some 0"
    by (cases "price x") (simp_all add: priceOrZero_def)
  show ?thesis using cmp zero asc desc asc' desc' by blast
qed

theorem absent_price_sorts_as_zero_witness:
  "price (exampleProduct ''n'' None ''published'') = None
   \<and> list_all (\<lambda>p. 0 \<le> priceOrZero p)
        [exampleProduct ''x'' (Some 3) ''published'', exampleProduct ''n'' None ''published'',
         exampleProduct ''z'' (Some 0) ''published'']
   \<and> filteredAndSortedProducts
        [exampleProduct ''x'' (Some 3) ''published'', exampleProduct ''n'' None ''published'',
         exampleProduct ''z'' (Some 0) ''published''] [] ''all'' ''price_asc''
      = [exampleProduct ''n'' None ''published'', exampleProduct ''z'' (Some 0) ''published'']
        @ filter (\<lambda>p. 0 < priceOrZero p)
            (filteredAndSortedProducts
               [exampleProduct ''x'' (Some 3) ''published'', exampleProduct ''n'' None ''published'',
                exampleProduct ''z'' (Some 0) ''published''] [] ''all'' ''price_asc'')
   \<and> filteredAndSortedProducts
        [exampleProduct ''x'' (Some 3) ''published'', exampleProduct ''n'' None ''published'',
         exampleProduct ''z'' (Some 0) ''published''] [] ''all'' ''price_desc''
      = filter (\<lambda>p. 0 < priceOrZero p)
            (filteredAndSortedProducts
               [exampleProduct ''x'' (Some 3) ''published'', exampleProduct ''n'' None ''published'',
                exampleProduct ''z'' (Some 0) ''published''] [] ''all'' ''price_desc'')
        @ [exampleProduct ''n'' None ''published'', exampleProduct ''z'' (Some 0) ''published'']"
proof -
  let ?x = "exampleProduct ''x'' (Some 3) ''published''"
  let ?n = "exampleProduct ''n'' None ''published''"
  let ?z = "exampleProduct ''z'' (Some 0) ''published''"
  have absent: "price ?n = None"
    by (simp add: exampleProduct_def)
  have nonneg: "\<forall>p \<in> set [?x, ?n, ?z]. 0 \<le> priceOrZero p"
    by (simp add: priceOrZero_def exampleProduct_def)
  have zeros: "filter (\<lambda>p. priceOrZero p = 0) (filter (productFilter [] ''all'') [?x, ?n, ?z])
                 = [?n, ?z]"
    by (simp add: productFilter_empty_all priceOrZero_def exampleProduct_def)
  show ?thesis
    using absent nonneg
      absent_price_sorts_as_zero [of ?n "''price_asc''" ?x ?z "[?x, ?n, ?z]" "[]" "''all''"]
    unfolding zeros by (simp add: list_all_iff)
qed

end
